theory Spec2Isabelle
  imports Complex_Main
begin

section \<open>Samples\<close>

text \<open>
  The scripts \<^verbatim>\<open>zsmooth.py\<close> and \<^verbatim>\<open>zsmooth_dynamic_range.py\<close> work on numpy arrays of
  \<^verbatim>\<open>float32\<close> samples. A sample is modelled as an exact real number or one of the three special
  values of IEEE 754 arithmetic, so that a division by zero is a value of the model, as it is
  in numpy (which warns and goes on), and not HOL's \<open>x / 0 = 0\<close>. Rounding, overflow and the
  sign of zero are not modelled: finite samples are computed exactly, and a zero divisor
  counts as \<open>+0\<close> (the only zero the subtraction \<open>max - min\<close> of equal numbers yields).
\<close>

datatype val = Fin real | PInf | NInf | NaN

fun vneg :: "val \<Rightarrow> val" where
  "vneg (Fin a) = Fin (- a)"
| "vneg PInf = NInf"
| "vneg NInf = PInf"
| "vneg NaN = NaN"

fun vadd :: "val \<Rightarrow> val \<Rightarrow> val" where
  "vadd NaN _ = NaN"
| "vadd _ NaN = NaN"
| "vadd (Fin a) (Fin b) = Fin (a + b)"
| "vadd PInf NInf = NaN"
| "vadd NInf PInf = NaN"
| "vadd PInf _ = PInf"
| "vadd _ PInf = PInf"
| "vadd NInf _ = NInf"
| "vadd _ NInf = NInf"

definition vsub :: "val \<Rightarrow> val \<Rightarrow> val" where
  "vsub a b = vadd a (vneg b)"

fun vmul :: "val \<Rightarrow> val \<Rightarrow> val" where
  "vmul NaN _ = NaN"
| "vmul _ NaN = NaN"
| "vmul (Fin a) (Fin b) = Fin (a * b)"
| "vmul PInf (Fin b) = (if b = 0 then NaN else if 0 < b then PInf else NInf)"
| "vmul NInf (Fin b) = (if b = 0 then NaN else if 0 < b then NInf else PInf)"
| "vmul (Fin a) PInf = (if a = 0 then NaN else if 0 < a then PInf else NInf)"
| "vmul (Fin a) NInf = (if a = 0 then NaN else if 0 < a then NInf else PInf)"
| "vmul PInf PInf = PInf"
| "vmul PInf NInf = NInf"
| "vmul NInf PInf = NInf"
| "vmul NInf NInf = PInf"

fun vdiv :: "val \<Rightarrow> val \<Rightarrow> val" where
  "vdiv NaN _ = NaN"
| "vdiv _ NaN = NaN"
| "vdiv (Fin a) (Fin b) =
     (if b \<noteq> 0 then Fin (a / b)
      else if a = 0 then NaN
      else if 0 < a then PInf else NInf)"
| "vdiv (Fin a) PInf = Fin 0"
| "vdiv (Fin a) NInf = Fin 0"
| "vdiv PInf (Fin b) = (if 0 \<le> b then PInf else NInf)"
| "vdiv NInf (Fin b) = (if 0 \<le> b then NInf else PInf)"
| "vdiv PInf PInf = NaN"
| "vdiv PInf NInf = NaN"
| "vdiv NInf PInf = NaN"
| "vdiv NInf NInf = NaN"

fun vabs :: "val \<Rightarrow> val" where
  "vabs (Fin a) = Fin \<bar>a\<bar>"
| "vabs PInf = PInf"
| "vabs NInf = PInf"
| "vabs NaN = NaN"

text \<open>Comparisons with a NaN operand are false.\<close>

fun vless :: "val \<Rightarrow> val \<Rightarrow> bool" where
  "vless NaN _ = False"
| "vless _ NaN = False"
| "vless (Fin a) (Fin b) = (a < b)"
| "vless NInf NInf = False"
| "vless NInf _ = True"
| "vless _ NInf = False"
| "vless PInf _ = False"
| "vless _ PInf = True"

definition vgt :: "val \<Rightarrow> val \<Rightarrow> bool" where
  "vgt a b = vless b a"

text \<open>\<^verbatim>\<open>np.minimum\<close> and \<^verbatim>\<open>np.maximum\<close>: a NaN operand gives NaN.\<close>

definition np_minimum :: "val \<Rightarrow> val \<Rightarrow> val" where
  "np_minimum a b = (if a = NaN \<or> b = NaN then NaN else if vless b a then b else a)"

definition np_maximum :: "val \<Rightarrow> val \<Rightarrow> val" where
  "np_maximum a b = (if a = NaN \<or> b = NaN then NaN else if vless a b then b else a)"

section \<open>Images and errors\<close>

text \<open>
  An image is the buffer of its samples in row-major order. Every operation of the two
  scripts on an image is either elementwise or a reduction over all samples, so the
  arrangement into rows does not enter. The parameter the scripts call \<^verbatim>\<open>image\<close> is written
  \<open>img\<close> below, \<open>image\<close> being the image of a set under a function in HOL.
\<close>

type_synonym image = "val list"

datatype error =
    ValueError string
  | TypeError
  | SystemExit nat
  | LibraryError

text \<open>
  \<^verbatim>\<open>np.min(image)\<close> and \<^verbatim>\<open>np.max(image)\<close> reduce over the whole array and raise
  \<^verbatim>\<open>ValueError\<close> on an array without elements.
\<close>

definition np_min :: "image \<Rightarrow> error + val" where
  "np_min img =
     (case img of
        [] \<Rightarrow> Inl (ValueError ''zero-size array to reduction operation minimum which has no identity'')
      | x # xs \<Rightarrow> Inr (fold (\<lambda>y acc. np_minimum acc y) xs x))"

definition np_max :: "image \<Rightarrow> error + val" where
  "np_max img =
     (case img of
        [] \<Rightarrow> Inl (ValueError ''zero-size array to reduction operation maximum which has no identity'')
      | x # xs \<Rightarrow> Inr (fold (\<lambda>y acc. np_maximum acc y) xs x))"

section \<open>Normalizer\<close>

text \<open>
  \<^verbatim>\<open>def normalize_image(image):
    return (image - np.min(image)) / (np.max(image) - np.min(image))\<close>
  The same in both scripts. The division has no guard.
\<close>

definition normalize_image :: "image \<Rightarrow> error + image" where
  "normalize_image img =
     (case np_min img of
        Inl e \<Rightarrow> Inl e
      | Inr mn \<Rightarrow>
          (case np_max img of
             Inl e \<Rightarrow> Inl e
           | Inr mx \<Rightarrow> Inr (map (\<lambda>x. vdiv (vsub x mn) (vsub mx mn)) img)))"

text \<open>An image of finite samples is constant when all its samples are equal.\<close>

definition is_constant :: "real list \<Rightarrow> bool" where
  "is_constant xs = list_all (\<lambda>x. list_all (\<lambda>y. x = y) xs) xs"

section \<open>DynamicRangeExtender\<close>

text \<open>
  \<^verbatim>\<open>np.clip(image, lo, hi)\<close> is \<^verbatim>\<open>np.minimum(hi, np.maximum(image, lo))\<close> on every sample.
\<close>

definition np_clip :: "image \<Rightarrow> real \<Rightarrow> real \<Rightarrow> image" where
  "np_clip img lo hi = map (\<lambda>x. np_minimum (Fin hi) (np_maximum x (Fin lo))) img"

text \<open>
  \<^verbatim>\<open>extend_dynamic_range(image, black_point, white_point)\<close> of \<^verbatim>\<open>zsmooth_dynamic_range.py\<close>.
  The two points arrive as the command line gave them: a number, or \<^verbatim>\<open>None\<close> for an option
  that was left out, on which \<^verbatim>\<open>float(None)\<close> raises \<^verbatim>\<open>TypeError\<close>.
\<close>

definition extend_dynamic_range :: "image \<Rightarrow> real option \<Rightarrow> real option \<Rightarrow> error + image" where
  "extend_dynamic_range img black_point white_point =
     (case black_point of
        None \<Rightarrow> Inl TypeError
      | Some b \<Rightarrow>
          (case white_point of
             None \<Rightarrow> Inl TypeError
           | Some w \<Rightarrow>
               if w \<le> b then Inl (ValueError ''White point must be greater than black point'')
               else Inr (map (\<lambda>x. vdiv (vsub x (Fin b)) (Fin (w - b))) (np_clip img b w))))"

section \<open>BandingReducer\<close>

text \<open>
  \<^verbatim>\<open>cv2.bilateralFilter(src, d, sigmaColor, sigmaSpace)\<close> is OpenCV's. It returns an array of the
  size of \<open>src\<close>; what it computes for each pixel is a parameter \<open>px\<close> of the model: the
  output sample at index \<open>i\<close>, given the source image and the three settings.
\<close>

type_synonym pixel_filter = "image \<Rightarrow> int \<Rightarrow> real \<Rightarrow> real \<Rightarrow> nat \<Rightarrow> val"

definition bilateralFilter :: "pixel_filter \<Rightarrow> image \<Rightarrow> int \<Rightarrow> real \<Rightarrow> real \<Rightarrow> image" where
  "bilateralFilter px src d sigmaColor sigmaSpace =
     map (px src d sigmaColor sigmaSpace) [0..<length src]"

text \<open>
  The local variables of \<^verbatim>\<open>reduce_banding(image, large_scale, fine_scale, boost, detail_threshold)\<close>,
  the same in both scripts, each as a function of the arguments it depends on.
\<close>

definition large_smooth :: "pixel_filter \<Rightarrow> image \<Rightarrow> int \<Rightarrow> image" where
  "large_smooth px img large_scale =
     bilateralFilter px img large_scale (1 / 10) (of_int large_scale)"

definition fine_smooth :: "pixel_filter \<Rightarrow> image \<Rightarrow> int \<Rightarrow> image" where
  "fine_smooth px img fine_scale =
     bilateralFilter px img fine_scale (1 / 10) (of_int fine_scale)"

definition detail :: "pixel_filter \<Rightarrow> image \<Rightarrow> int \<Rightarrow> image" where
  "detail px img fine_scale = map2 vsub img (fine_smooth px img fine_scale)"

definition boosted :: "pixel_filter \<Rightarrow> image \<Rightarrow> int \<Rightarrow> real \<Rightarrow> image" where
  "boosted px img fine_scale boost =
     map2 vadd (fine_smooth px img fine_scale)
       (map (\<lambda>d. vmul d (Fin boost)) (detail px img fine_scale))"

text \<open>\<^verbatim>\<open>result = np.where(np.abs(detail) > detail_threshold, boosted, large_smooth)\<close>\<close>

definition result :: "pixel_filter \<Rightarrow> image \<Rightarrow> int \<Rightarrow> int \<Rightarrow> real \<Rightarrow> real \<Rightarrow> image" where
  "result px img large_scale fine_scale boost detail_threshold =
     map (\<lambda>(d, b, l). if vgt (vabs d) (Fin detail_threshold) then b else l)
       (zip (detail px img fine_scale)
         (zip (boosted px img fine_scale boost) (large_smooth px img large_scale)))"

definition reduce_banding ::
  "pixel_filter \<Rightarrow> image \<Rightarrow> int \<Rightarrow> int \<Rightarrow> real \<Rightarrow> real \<Rightarrow> error + image" where
  "reduce_banding px img large_scale fine_scale boost detail_threshold =
     normalize_image (result px img large_scale fine_scale boost detail_threshold)"

section \<open>FinalSmoother\<close>

definition edge_preserving_smooth :: "pixel_filter \<Rightarrow> image \<Rightarrow> real \<Rightarrow> real \<Rightarrow> image" where
  "edge_preserving_smooth px img spatial_sigma range_sigma =
     bilateralFilter px img (- 1) range_sigma spatial_sigma"

section \<open>Decoding\<close>

text \<open>
  What the image libraries hand back: a numpy array with its shape, its element type and its
  elements in row-major order, each element as the number it stands for.
\<close>

datatype dtype = UInt8 | UInt16 | Float32 | OtherType

record ndarray =
  shape :: "nat list"
  dtype :: dtype
  data :: "val list"

datatype imread_flag = IMREAD_ANYDEPTH | IMREAD_UNCHANGED

text \<open>An opened EXR file: the corners of its data window and its channels by name.\<close>

record exr_file =
  dw_min_x :: int
  dw_min_y :: int
  dw_max_x :: int
  dw_max_y :: int
  channel :: "string \<Rightarrow> error + val list"

text \<open>
  The libraries the scripts call, as parameters:
  \<^item> \<open>cv2_imread\<close>: \<^verbatim>\<open>cv2.imread(path, flag)\<close>, \<^verbatim>\<open>None\<close> for a file it cannot read;
  \<^item> \<open>pil_open\<close>: \<^verbatim>\<open>np.array(Image.open(path))\<close>, \<open>None\<close> when either call raises;
  \<^item> \<open>cv2_cvtColor_BGR2GRAY\<close>: \<^verbatim>\<open>cv2.cvtColor(img, cv2.COLOR_BGR2GRAY)\<close>;
  \<^item> \<open>exr_InputFile\<close>: \<^verbatim>\<open>OpenEXR.InputFile(path)\<close>;
  \<^item> \<open>exr_writable\<close>: whether \<^verbatim>\<open>OpenEXR.OutputFile(path, header)\<close> and the write succeed.
\<close>

record codecs =
  cv2_imread :: "string \<Rightarrow> imread_flag \<Rightarrow> ndarray option"
  pil_open :: "string \<Rightarrow> ndarray option"
  cv2_cvtColor_BGR2GRAY :: "ndarray \<Rightarrow> error + ndarray"
  exr_InputFile :: "string \<Rightarrow> error + exr_file"
  exr_writable :: "string \<Rightarrow> bool"

text \<open>\<^verbatim>\<open>img.astype(np.float32)\<close> keeps the numbers; \<^verbatim>\<open>img / k\<close> divides every element.\<close>

definition astype_float32 :: "ndarray \<Rightarrow> ndarray" where
  "astype_float32 img = img\<lparr>dtype := Float32\<rparr>"

definition divide_by :: "ndarray \<Rightarrow> real \<Rightarrow> ndarray" where
  "divide_by img k = img\<lparr>data := map (\<lambda>x. vdiv x (Fin k)) (data img)\<rparr>"

text \<open>\<^verbatim>\<open>read_image\<close> of \<^verbatim>\<open>zsmooth.py\<close>.\<close>

definition read_image :: "codecs \<Rightarrow> string \<Rightarrow> error + ndarray" where
  "read_image c file_path =
     (case cv2_imread c file_path IMREAD_ANYDEPTH of
        None \<Rightarrow> Inl (ValueError (''Could not read image: '' @ file_path))
      | Some img \<Rightarrow> Inr (astype_float32 img))"

text \<open>
  \<^verbatim>\<open>read_exr\<close> of \<^verbatim>\<open>zsmooth_dynamic_range.py\<close>. Assigning \<^verbatim>\<open>img.shape\<close> raises
  \<^verbatim>\<open>ValueError\<close> when the buffer does not fill the shape; a shape with a negative side, which
  the data window of a file that OpenEXR opens does not give, counts as such a shape.
\<close>

definition read_exr :: "codecs \<Rightarrow> string \<Rightarrow> error + ndarray" where
  "read_exr c file_path =
     (case exr_InputFile c file_path of
        Inl e \<Rightarrow> Inl e
      | Inr file \<Rightarrow>
          (let size = (dw_max_x file - dw_min_x file + 1, dw_max_y file - dw_min_y file + 1)
           in case channel file ''Y'' of
                Inl e \<Rightarrow> Inl e
              | Inr channelData \<Rightarrow>
                  if 0 \<le> snd size \<and> 0 \<le> fst size
                     \<and> int (length channelData) = snd size * fst size
                  then Inr \<lparr>shape = [nat (snd size), nat (fst size)], dtype = Float32,
                            data = channelData\<rparr>
                  else Inl (ValueError ''cannot reshape array'')))"

text \<open>\<^verbatim>\<open>str.lower\<close> and \<^verbatim>\<open>str.endswith\<close>, on ASCII paths.\<close>

definition lower_char :: "char \<Rightarrow> char" where
  "lower_char ch =
     (case map_of (zip ''ABCDEFGHIJKLMNOPQRSTUVWXYZ'' ''abcdefghijklmnopqrstuvwxyz'') ch of
        Some l \<Rightarrow> l
      | None \<Rightarrow> ch)"

definition lower :: "string \<Rightarrow> string" where
  "lower s = map lower_char s"

definition endswith :: "string \<Rightarrow> string \<Rightarrow> bool" where
  "endswith s t = (length t \<le> length s \<and> drop (length s - length t) s = t)"

text \<open>\<^verbatim>\<open>read_image\<close> of \<^verbatim>\<open>zsmooth_dynamic_range.py\<close>.\<close>

definition read_image_dr :: "codecs \<Rightarrow> string \<Rightarrow> error + ndarray" where
  "read_image_dr c file_path =
     (if endswith (lower file_path) ''.exr'' then read_exr c file_path
      else
        (case (case cv2_imread c file_path IMREAD_UNCHANGED of
                 Some img \<Rightarrow> Inr img
               | None \<Rightarrow>
                   (case pil_open c file_path of
                      Some img \<Rightarrow> Inr img
                    | None \<Rightarrow> Inl (ValueError (''Could not read image: '' @ file_path)))) of
           Inl e \<Rightarrow> Inl e
         | Inr img \<Rightarrow>
             (case (if length (shape img) = 3 then cv2_cvtColor_BGR2GRAY c img else Inr img) of
                Inl e \<Rightarrow> Inl e
              | Inr img \<Rightarrow>
                  Inr (if dtype img = UInt8 then divide_by (astype_float32 img) 255
                       else if dtype img = UInt16 then divide_by (astype_float32 img) 65535
                       else astype_float32 img))))"

section \<open>The pipeline\<close>

text \<open>
  The world a run acts on: the output files written so far, and the lines printed. A printed
  line is kept with its arguments, not formatted.
\<close>

datatype line =
    Processing_depth_image string
  | Output_will_be_saved_as string
  | Error_line string
  | Error_saving_EXR_file
  | Error_invalid_points
  | Error_both_required
  | Extending_dynamic_range real real
  | Black_point "real option"
  | White_point "real option"
  | Processed_saved_as string

record world =
  files :: "string \<rightharpoonup> image"
  stdout :: "line list"

definition print :: "line \<Rightarrow> world \<Rightarrow> world" where
  "print l w = w\<lparr>stdout := stdout w @ [l]\<rparr>"

text \<open>
  \<^verbatim>\<open>save_exr(file_path, image)\<close>, the same in both scripts, is made of calls to OpenEXR: on
  success the file holds the image, and a failed write is taken to leave no file.
\<close>

definition save_exr :: "codecs \<Rightarrow> string \<Rightarrow> image \<Rightarrow> world \<Rightarrow> error + world" where
  "save_exr c file_path img w =
     (if exr_writable c file_path then Inr (w\<lparr>files := (files w)(file_path \<mapsto> img)\<rparr>)
      else Inl LibraryError)"

text \<open>
  \<^verbatim>\<open>process_depth_image\<close> of \<^verbatim>\<open>zsmooth.py\<close>. \<^verbatim>\<open>sys.exit(1)\<close> raises \<^verbatim>\<open>SystemExit(1)\<close>; an
  exception outside the two \<^verbatim>\<open>try\<close> blocks is not caught.
\<close>

definition process_depth_image ::
  "codecs \<Rightarrow> pixel_filter \<Rightarrow> string \<Rightarrow> string \<Rightarrow> int \<Rightarrow> int \<Rightarrow> real \<Rightarrow> real \<Rightarrow> real \<Rightarrow> real
     \<Rightarrow> world \<Rightarrow> (error + unit) \<times> world" where
  "process_depth_image c px input_path output_path large_scale fine_scale boost detail_threshold
       spatial_sigma range_sigma w =
     (case read_image c input_path of
        Inl (ValueError e) \<Rightarrow> (Inl (SystemExit 1), print (Error_line e) w)
      | Inl e \<Rightarrow> (Inl e, w)
      | Inr depth_map \<Rightarrow>
          (case normalize_image (data depth_map) of
             Inl e \<Rightarrow> (Inl e, w)
           | Inr normalized \<Rightarrow>
               (case reduce_banding px normalized large_scale fine_scale boost detail_threshold of
                  Inl e \<Rightarrow> (Inl e, w)
                | Inr smoothed \<Rightarrow>
                    (let final = edge_preserving_smooth px smoothed spatial_sigma range_sigma
                     in case save_exr c output_path final w of
                          Inl e \<Rightarrow> (Inl (SystemExit 1), print Error_saving_EXR_file w)
                        | Inr w' \<Rightarrow> (Inr (), w')))))"

text \<open>\<^verbatim>\<open>process_depth_image\<close> of \<^verbatim>\<open>zsmooth_dynamic_range.py\<close>.\<close>

definition process_depth_image_dr ::
  "codecs \<Rightarrow> pixel_filter \<Rightarrow> string \<Rightarrow> string \<Rightarrow> int \<Rightarrow> int \<Rightarrow> real \<Rightarrow> real \<Rightarrow> real \<Rightarrow> real
     \<Rightarrow> real option \<Rightarrow> real option \<Rightarrow> world \<Rightarrow> (error + unit) \<times> world" where
  "process_depth_image_dr c px input_path output_path large_scale fine_scale boost
       detail_threshold spatial_sigma range_sigma black_point white_point w =
     (case read_image_dr c input_path of
        Inl (ValueError e) \<Rightarrow> (Inl (SystemExit 1), print (Error_line e) w)
      | Inl e \<Rightarrow> (Inl e, w)
      | Inr depth_map \<Rightarrow>
          (case extend_dynamic_range (data depth_map) black_point white_point of
             Inl e \<Rightarrow> (Inl e, w)
           | Inr depth_map \<Rightarrow>
               (case reduce_banding px depth_map large_scale fine_scale boost detail_threshold of
                  Inl e \<Rightarrow> (Inl e, w)
                | Inr smoothed \<Rightarrow>
                    (let final = edge_preserving_smooth px smoothed spatial_sigma range_sigma
                     in case save_exr c output_path final w of
                          Inl e \<Rightarrow> (Inl (SystemExit 1), print Error_saving_EXR_file w)
                        | Inr w' \<Rightarrow> (Inr (), w')))))"

section \<open>The command line\<close>

text \<open>
  The options as \<^verbatim>\<open>argparse\<close> hands them over. Parsing is \<^verbatim>\<open>argparse\<close>'s; an option declared
  \<^verbatim>\<open>type=float\<close> is a real number here.
\<close>

record args =
  input_file :: string
  output_file :: string
  large_scale :: int
  fine_scale :: int
  boost :: real
  detail_threshold :: real
  spatial_sigma :: real
  range_sigma :: real

record args_dr = args +
  black_point :: "real option"
  white_point :: "real option"

text \<open>\<^verbatim>\<open>main\<close> of \<^verbatim>\<open>zsmooth.py\<close>, after \<^verbatim>\<open>parse_args\<close>.\<close>

definition main :: "codecs \<Rightarrow> pixel_filter \<Rightarrow> args \<Rightarrow> world \<Rightarrow> (error + unit) \<times> world" where
  "main c px a w =
     (let w = print (Processing_depth_image (input_file a)) w;
          w = print (Output_will_be_saved_as (output_file a)) w
      in case process_depth_image c px (input_file a) (output_file a) (large_scale a)
                (fine_scale a) (boost a) (detail_threshold a) (spatial_sigma a) (range_sigma a) w of
           (Inl e, w) \<Rightarrow> (Inl e, w)
         | (Inr u, w) \<Rightarrow> (Inr (), print (Processed_saved_as (output_file a)) w))"

text \<open>
  \<^verbatim>\<open>main\<close> of \<^verbatim>\<open>zsmooth_dynamic_range.py\<close>, after \<^verbatim>\<open>parse_args\<close>: the check of the two points,
  then the statements that follow it, which call \<^verbatim>\<open>process_depth_image\<close> twice.
\<close>

definition run_dr :: "codecs \<Rightarrow> pixel_filter \<Rightarrow> args_dr \<Rightarrow> world \<Rightarrow> (error + unit) \<times> world" where
  "run_dr c px a w =
     (case process_depth_image_dr c px (input_file a) (output_file a) (large_scale a)
             (fine_scale a) (boost a) (detail_threshold a) (spatial_sigma a) (range_sigma a)
             (black_point a) (white_point a) w of
        (Inl e, w) \<Rightarrow> (Inl e, w)
      | (Inr u, w) \<Rightarrow>
          (let w = print (Black_point (black_point a)) w;
               w = print (White_point (white_point a)) w
           in case process_depth_image_dr c px (input_file a) (output_file a) (large_scale a)
                     (fine_scale a) (boost a) (detail_threshold a) (spatial_sigma a)
                     (range_sigma a) (black_point a) (white_point a) w of
                (Inl e, w) \<Rightarrow> (Inl e, w)
              | (Inr u, w) \<Rightarrow> (Inr (), print (Processed_saved_as (output_file a)) w)))"

definition main_dr :: "codecs \<Rightarrow> pixel_filter \<Rightarrow> args_dr \<Rightarrow> world \<Rightarrow> (error + unit) \<times> world" where
  "main_dr c px a w =
     (let w = print (Processing_depth_image (input_file a)) w;
          w = print (Output_will_be_saved_as (output_file a)) w
      in if black_point a \<noteq> None \<and> white_point a \<noteq> None then
           (let bp = the (black_point a); wp = the (white_point a)
            in if bp < 0 \<or> bp \<ge> 1 \<or> wp \<le> 0 \<or> wp > 1 \<or> bp \<ge> wp
               then (Inl (SystemExit 1), print Error_invalid_points w)
               else run_dr c px a (print (Extending_dynamic_range bp wp) w))
         else if black_point a \<noteq> None \<or> white_point a \<noteq> None then
           (Inl (SystemExit 1), print Error_both_required w)
         else run_dr c px a w)"

text \<open>
  The exit status of the process: 0 when \<^verbatim>\<open>main\<close> returns, the argument of \<^verbatim>\<open>sys.exit\<close>, and 1
  for an exception nobody caught.
\<close>

definition exit_status :: "error + unit \<Rightarrow> nat" where
  "exit_status r = (case r of Inr u \<Rightarrow> 0 | Inl (SystemExit n) \<Rightarrow> n | Inl e \<Rightarrow> 1)"

section \<open>Concrete inputs\<close>

text \<open>
  A small filter, image and set of files on which the theorems below are evaluated: the
  filter averages a pixel with its two neighbours (the border pixel repeated), whatever the
  settings.
\<close>

definition demo_filter :: pixel_filter where
  "demo_filter src d sigmaColor sigmaSpace i =
     vdiv (vadd (vadd (src ! (i - 1)) (src ! i)) (src ! min (i + 1) (length src - 1))) (Fin 3)"

definition demo_image :: image where
  "demo_image = [Fin 0, Fin 0, Fin (9 / 10), Fin 0]"

definition demo_codecs :: codecs where
  "demo_codecs =
     \<lparr>cv2_imread = (\<lambda>path flag.
        if path = ''input.png''
        then Some \<lparr>shape = [1, 4], dtype = UInt8, data = [Fin 0, Fin 0, Fin 255, Fin 51]\<rparr>
        else if path = ''deep.png''
        then Some \<lparr>shape = [1, 2], dtype = UInt16, data = [Fin 0, Fin 65535]\<rparr>
        else if path = ''flat.png''
        then Some \<lparr>shape = [1, 3], dtype = UInt8, data = [Fin 128, Fin 128, Fin 128]\<rparr>
        else None),
      pil_open = (\<lambda>path. None),
      cv2_cvtColor_BGR2GRAY = (\<lambda>img. Inl LibraryError),
      exr_InputFile = (\<lambda>path. Inl LibraryError),
      exr_writable = (\<lambda>path. path = ''output.exr'')\<rparr>"

definition demo_args :: "real option \<Rightarrow> real option \<Rightarrow> args_dr" where
  "demo_args bp wp =
     \<lparr>input_file = ''input.png'', output_file = ''output.exr'', large_scale = 15,
      fine_scale = 3, boost = 3 / 2, detail_threshold = 1 / 50, spatial_sigma = 50,
      range_sigma = 1 / 10, black_point = bp, white_point = wp\<rparr>"

definition demo_world :: world where
  "demo_world = \<lparr>files = Map.empty, stdout = []\<rparr>"

section \<open>Facts about the reductions and the Normalizer\<close>

lemma vsub_Fin: "vsub (Fin a) (Fin b) = Fin (a - b)"
  by (simp add: vsub_def)

lemma fold_np_minimum_Fin:
  "fold (\<lambda>y acc. np_minimum acc y) (map Fin xs) (Fin a) = Fin (fold min xs a)"
proof (induction xs arbitrary: a)
  case Nil
  show ?case by simp
next
  case (Cons x xs)
  have "np_minimum (Fin a) (Fin x) = Fin (min x a)"
    by (simp add: np_minimum_def min_def)
  with Cons show ?case by simp
qed

lemma fold_np_maximum_Fin:
  "fold (\<lambda>y acc. np_maximum acc y) (map Fin xs) (Fin a) = Fin (fold max xs a)"
proof (induction xs arbitrary: a)
  case Nil
  show ?case by simp
next
  case (Cons x xs)
  have "np_maximum (Fin a) (Fin x) = Fin (max x a)"
    by (simp add: np_maximum_def max_def)
  with Cons show ?case by simp
qed

lemma np_min_Fin:
  assumes "xs \<noteq> []"
  shows "np_min (map Fin xs) = Inr (Fin (Min (set xs)))"
proof -
  from assms obtain y ys where xs: "xs = y # ys" by (cases xs) auto
  have "Min (set (y # ys)) = fold min ys y" by (rule Min.set_eq_fold)
  then show ?thesis
    by (simp add: xs np_min_def fold_np_minimum_Fin)
qed

lemma np_max_Fin:
  assumes "xs \<noteq> []"
  shows "np_max (map Fin xs) = Inr (Fin (Max (set xs)))"
proof -
  from assms obtain y ys where xs: "xs = y # ys" by (cases xs) auto
  have "Max (set (y # ys)) = fold max ys y" by (rule Max.set_eq_fold)
  then show ?thesis
    by (simp add: xs np_max_def fold_np_maximum_Fin)
qed

lemma is_constant_iff: "is_constant xs \<longleftrightarrow> (\<forall>x\<in>set xs. \<forall>y\<in>set xs. x = y)"
  by (simp add: is_constant_def list_all_iff)

lemma not_constant_nonempty: "\<not> is_constant xs \<Longrightarrow> xs \<noteq> []"
  by (auto simp: is_constant_iff)

lemma not_constant_Min_less_Max:
  assumes "\<not> is_constant xs"
  shows "Min (set xs) < Max (set xs)"
proof -
  from assms obtain x y where x: "x \<in> set xs" and y: "y \<in> set xs" and "x \<noteq> y"
    by (auto simp: is_constant_iff)
  then consider "x < y" | "y < x" by (cases x y rule: linorder_cases) auto
  then show ?thesis
  proof cases
    case 1
    have "Min (set xs) \<le> x" using x by simp
    moreover have "y \<le> Max (set xs)" using y by simp
    ultimately show ?thesis using 1 by linarith
  next
    case 2
    have "Min (set xs) \<le> y" using y by simp
    moreover have "x \<le> Max (set xs)" using x by simp
    ultimately show ?thesis using 2 by linarith
  qed
qed

lemma constant_Min_eq_Max:
  assumes "xs \<noteq> []" and "is_constant xs"
  shows "Min (set xs) = Max (set xs)"
proof -
  have "Min (set xs) \<in> set xs" and "Max (set xs) \<in> set xs"
    using assms(1) by (intro Min_in Max_in; simp)+
  with assms(2) show ?thesis by (simp add: is_constant_iff)
qed

text \<open>The Normalizer on an image of finite samples, in real arithmetic.\<close>

lemma normalize_image_Fin:
  assumes "xs \<noteq> []"
  shows "normalize_image (map Fin xs) =
    Inr (map (\<lambda>x. vdiv (Fin (x - Min (set xs))) (Fin (Max (set xs) - Min (set xs)))) xs)"
  using assms by (simp add: normalize_image_def np_min_Fin np_max_Fin vsub_Fin comp_def)

lemma normalize_image_nonconstant:
  assumes "\<not> is_constant xs"
  shows "normalize_image (map Fin xs) =
    Inr (map Fin (map (\<lambda>x. (x - Min (set xs)) / (Max (set xs) - Min (set xs))) xs))"
proof -
  have ne: "xs \<noteq> []" using assms by (rule not_constant_nonempty)
  have "Max (set xs) - Min (set xs) \<noteq> 0"
    using not_constant_Min_less_Max [OF assms] by simp
  then show ?thesis
    by (simp add: normalize_image_Fin [OF ne] comp_def)
qed

lemma Min_normalized:
  assumes "\<not> is_constant xs"
  shows "Min (set (map (\<lambda>x. (x - Min (set xs)) / (Max (set xs) - Min (set xs))) xs)) = 0"
proof (rule Min_eqI)
  let ?f = "\<lambda>x. (x - Min (set xs)) / (Max (set xs) - Min (set xs))"
  have ne: "xs \<noteq> []" using assms by (rule not_constant_nonempty)
  have pos: "0 < Max (set xs) - Min (set xs)"
    using not_constant_Min_less_Max [OF assms] by simp
  show "finite (set (map ?f xs))" by simp
  show "0 \<le> y" if "y \<in> set (map ?f xs)" for y
  proof -
    from that obtain x where "x \<in> set xs" and y: "y = ?f x" by auto
    then have "Min (set xs) \<le> x" by simp
    with pos show ?thesis by (simp add: y)
  qed
  have "Min (set xs) \<in> set xs" using ne by (intro Min_in) simp_all
  then have "?f (Min (set xs)) \<in> ?f ` set xs" by (rule imageI)
  then show "0 \<in> set (map ?f xs)" by simp
qed

lemma Max_normalized:
  assumes "\<not> is_constant xs"
  shows "Max (set (map (\<lambda>x. (x - Min (set xs)) / (Max (set xs) - Min (set xs))) xs)) = 1"
proof (rule Max_eqI)
  let ?f = "\<lambda>x. (x - Min (set xs)) / (Max (set xs) - Min (set xs))"
  have ne: "xs \<noteq> []" using assms by (rule not_constant_nonempty)
  have pos: "0 < Max (set xs) - Min (set xs)"
    using not_constant_Min_less_Max [OF assms] by simp
  show "finite (set (map ?f xs))" by simp
  show "y \<le> 1" if "y \<in> set (map ?f xs)" for y
  proof -
    from that obtain x where "x \<in> set xs" and y: "y = ?f x" by auto
    then have "x \<le> Max (set xs)" by simp
    with pos show ?thesis by (simp add: y)
  qed
  have "Max (set xs) \<in> set xs" using ne by (intro Max_in) simp_all
  then have "?f (Max (set xs)) \<in> ?f ` set xs" by (rule imageI)
  moreover have "?f (Max (set xs)) = 1" using pos by simp
  ultimately show "1 \<in> set (map ?f xs)" by simp
qed

lemma normalize_image_general:
  assumes "img \<noteq> []"
  shows "\<exists>mn mx out. np_min img = Inr mn \<and> np_max img = Inr mx \<and> normalize_image img = Inr out
           \<and> length out = length img
           \<and> (\<forall>i<length img. out ! i = vdiv (vsub (img ! i) mn) (vsub mx mn))"
proof -
  from assms obtain x xs where img: "img = x # xs" by (cases img) auto
  obtain mn where mn: "np_min img = Inr mn" by (simp add: img np_min_def)
  obtain mx where mx: "np_max img = Inr mx" by (simp add: img np_max_def)
  have "normalize_image img = Inr (map (\<lambda>x. vdiv (vsub x mn) (vsub mx mn)) img)"
    by (simp add: normalize_image_def mn mx)
  with mn mx show ?thesis by simp
qed

text \<open>On a constant image every sample is \<open>0 / 0\<close>.\<close>

lemma normalize_image_constant_NaN:
  assumes "xs \<noteq> []" and "is_constant xs"
  shows "normalize_image (map Fin xs) = Inr (replicate (length xs) NaN)"
proof -
  have eq: "Min (set xs) = Max (set xs)" by (rule constant_Min_eq_Max [OF assms])
  have all: "\<forall>x\<in>set xs. x = Max (set xs)"
  proof
    fix x assume x: "x \<in> set xs"
    have "Max (set xs) \<in> set xs" using assms(1) by (intro Max_in) simp_all
    with x assms(2) show "x = Max (set xs)" by (simp add: is_constant_iff)
  qed
  have "map (\<lambda>x. vdiv (Fin (x - Min (set xs))) (Fin (Max (set xs) - Min (set xs)))) xs
      = map (\<lambda>x. NaN) xs"
    using all by (intro map_cong) (simp_all add: eq)
  then show ?thesis
    by (simp add: normalize_image_Fin [OF assms(1)] map_replicate_const)
qed

section \<open>Facts about NaN\<close>

lemma vsub_NaN: "vsub NaN y = NaN" "vsub x NaN = NaN"
  by (cases x; simp add: vsub_def)+

lemma fold_np_minimum_NaN: "fold (\<lambda>y acc. np_minimum acc y) ys NaN = NaN"
  by (induction ys) (simp_all add: np_minimum_def)

lemma fold_np_maximum_NaN: "fold (\<lambda>y acc. np_maximum acc y) ys NaN = NaN"
  by (induction ys) (simp_all add: np_maximum_def)

lemma normalize_image_NaNs:
  assumes "0 < n"
  shows "normalize_image (replicate n NaN) = Inr (replicate n NaN)"
proof -
  from assms obtain m where n: "n = Suc m" by (cases n) auto
  have "np_min (replicate n NaN) = Inr NaN"
    by (simp add: n np_min_def fold_np_minimum_NaN)
  moreover have "np_max (replicate n NaN) = Inr NaN"
    by (simp add: n np_max_def fold_np_maximum_NaN)
  ultimately show ?thesis
    by (simp add: normalize_image_def vsub_NaN)
qed

section \<open>Facts about the BandingReducer\<close>

lemma length_bilateralFilter: "length (bilateralFilter px src d sigmaColor sigmaSpace) = length src"
  by (simp add: bilateralFilter_def)

lemma length_large_smooth: "length (large_smooth px img ls) = length img"
  by (simp add: large_smooth_def length_bilateralFilter)

lemma length_fine_smooth: "length (fine_smooth px img fs) = length img"
  by (simp add: fine_smooth_def length_bilateralFilter)

lemma length_detail: "length (detail px img fs) = length img"
  by (simp add: detail_def length_fine_smooth)

lemma length_boosted: "length (boosted px img fs b) = length img"
  by (simp add: boosted_def length_fine_smooth length_detail)

lemma length_result: "length (result px img ls fs b t) = length img"
  by (simp add: result_def length_detail length_boosted length_large_smooth)

lemma nth_detail:
  "i < length img \<Longrightarrow> detail px img fs ! i = vsub (img ! i) (fine_smooth px img fs ! i)"
  by (simp add: detail_def length_fine_smooth)

lemma nth_boosted:
  "i < length img \<Longrightarrow>
     boosted px img fs b ! i = vadd (fine_smooth px img fs ! i) (vmul (detail px img fs ! i) (Fin b))"
  by (simp add: boosted_def length_fine_smooth length_detail)

lemma nth_result:
  "i < length img \<Longrightarrow>
     result px img ls fs b t ! i =
       (if vgt (vabs (detail px img fs ! i)) (Fin t) then boosted px img fs b ! i
        else large_smooth px img ls ! i)"
  by (simp add: result_def length_detail length_boosted length_large_smooth)

lemma vgt_vabs_Fin: "vgt (vabs (Fin d)) (Fin t) \<longleftrightarrow> t < \<bar>d\<bar>"
  by (simp add: vgt_def)

text \<open>A NaN image has a NaN detail layer, so the selection takes the large-scale layer.\<close>

lemma result_NaNs: "result px (replicate n NaN) ls fs b t = large_smooth px (replicate n NaN) ls"
proof (rule nth_equalityI)
  show "length (result px (replicate n NaN) ls fs b t) = length (large_smooth px (replicate n NaN) ls)"
    by (simp add: length_result length_large_smooth)
  fix i assume "i < length (result px (replicate n NaN) ls fs b t)"
  then have i: "i < length (replicate n NaN)" by (simp add: length_result)
  have "detail px (replicate n NaN) fs ! i = NaN"
    using i by (simp add: nth_detail vsub_NaN)
  then show "result px (replicate n NaN) ls fs b t ! i = large_smooth px (replicate n NaN) ls ! i"
    by (simp add: nth_result [OF i] vgt_def)
qed

lemma bilateralFilter_NaNs:
  assumes "\<forall>i<n. px (replicate n NaN) d sc sp i = NaN"
  shows "bilateralFilter px (replicate n NaN) d sc sp = replicate n NaN"
  using assms by (simp add: bilateralFilter_def list_eq_iff_nth_eq)

section \<open>Facts about the DynamicRangeExtender\<close>




section \<open>Facts about the pipeline and the concrete inputs\<close>

lemma files_print: "files (print l w) = files w"
  by (simp add: print_def)

lemma process_depth_image_dr_absent:
  assumes "read_image_dr c input_path = Inr depth_map"
  shows "process_depth_image_dr c px input_path output_path ls fs b t ss rs None None w = (Inl TypeError, w)"
  by (simp add: process_depth_image_dr_def assms extend_dynamic_range_def)

lemma read_exr_as_is:
  assumes "read_exr c file_path = Inr img"
  shows "\<exists>file. exr_InputFile c file_path = Inr file \<and> channel file ''Y'' = Inr (data img)
           \<and> dtype img = Float32 \<and> length (shape img) = 2"
  using assms
  by (auto simp: read_exr_def Let_def split: sum.splits if_splits)

lemma demo_fine:
  "fine_smooth demo_filter demo_image 3 = [Fin 0, Fin (3 / 10), Fin (3 / 10), Fin (3 / 10)]"
  by (simp add: fine_smooth_def bilateralFilter_def demo_filter_def demo_image_def upt_rec)


lemma demo_detail:
  "detail demo_filter demo_image 3 = [Fin 0, Fin (- (3 / 10)), Fin (3 / 5), Fin (- (3 / 10))]"
  by (simp add: detail_def demo_fine vsub_def) (simp add: demo_image_def)

lemma demo_boosted:
  "boosted demo_filter demo_image 3 (3 / 2) = [Fin 0, Fin (- (3 / 20)), Fin (6 / 5), Fin (- (3 / 20))]"
  by (simp add: boosted_def demo_fine demo_detail)


lemma demo_flat_result:
  "result demo_filter [Fin (1 / 2), Fin (1 / 2), Fin (1 / 2)] 15 3 (3 / 2) (1 / 50) =
     [Fin (1 / 2), Fin (1 / 2), Fin (1 / 2)]"
  by (simp add: result_def detail_def boosted_def fine_smooth_def large_smooth_def
      bilateralFilter_def demo_filter_def upt_rec vsub_def vgt_def)

lemma demo_filter_NaNs:
  "i < n \<Longrightarrow> demo_filter (replicate n NaN) d sc sp i = NaN"
  by (simp add: demo_filter_def)

lemma demo_read_input:
  "read_image_dr demo_codecs ''input.png'' =
     Inr \<lparr>shape = [1, 4], dtype = Float32, data = [Fin 0, Fin 0, Fin 1, Fin (1 / 5)]\<rparr>"
  by (simp add: read_image_dr_def demo_codecs_def endswith_def lower_def lower_char_def
      divide_by_def astype_float32_def)

text \<open>
  The range step of the two scripts, once the input is decoded: \<^verbatim>\<open>zsmooth.py\<close> hands the
  normalized image to the BandingReducer, \<^verbatim>\<open>zsmooth_dynamic_range.py\<close> the extended one.
\<close>

lemma process_depth_image_range_step:
  assumes "read_image c input_path = Inr depth_map"
  shows "process_depth_image c px input_path output_path ls fs b t ss rs w =
    (case normalize_image (data depth_map) of
       Inl e \<Rightarrow> (Inl e, w)
     | Inr normalized \<Rightarrow>
         (case reduce_banding px normalized ls fs b t of
            Inl e \<Rightarrow> (Inl e, w)
          | Inr smoothed \<Rightarrow>
              (case save_exr c output_path (edge_preserving_smooth px smoothed ss rs) w of
                 Inl e \<Rightarrow> (Inl (SystemExit 1), print Error_saving_EXR_file w)
               | Inr w' \<Rightarrow> (Inr (), w'))))"
  by (simp add: process_depth_image_def assms Let_def split: sum.split)

lemma process_depth_image_dr_range_step:
  assumes "read_image_dr c input_path = Inr depth_map"
  shows "process_depth_image_dr c px input_path output_path ls fs b t ss rs bp wp w =
    (case extend_dynamic_range (data depth_map) bp wp of
       Inl e \<Rightarrow> (Inl e, w)
     | Inr extended \<Rightarrow>
         (case reduce_banding px extended ls fs b t of
            Inl e \<Rightarrow> (Inl e, w)
          | Inr smoothed \<Rightarrow>
              (case save_exr c output_path (edge_preserving_smooth px smoothed ss rs) w of
                 Inl e \<Rightarrow> (Inl (SystemExit 1), print Error_saving_EXR_file w)
               | Inr w' \<Rightarrow> (Inr (), w'))))"
  by (simp add: process_depth_image_dr_def assms Let_def split: sum.split)

section \<open>The claims\<close>

text \<open>
  Claim C1 (DetailBooster selection rule). For every image, filter and setting, at every
  pixel \<open>i\<close>: the detail layer is \<open>image - fine_smooth\<close>, the boosted layer is
  \<open>fine_smooth + detail * boost\<close>, and the blended result is the boosted sample where
  \<open>|detail| > detail_threshold\<close> and the large-scale sample otherwise. The comparison is
  strict: for a finite detail sample \<open>d\<close> the boosted sample is taken exactly when
  \<open>detail_threshold < |d|\<close>.
\<close>

theorem result_selection_rule:
  assumes "i < length img"
  shows "length (result px img ls fs b t) = length img
       \<and> detail px img fs ! i = vsub (img ! i) (fine_smooth px img fs ! i)
       \<and> boosted px img fs b ! i =
           vadd (fine_smooth px img fs ! i) (vmul (detail px img fs ! i) (Fin b))
       \<and> result px img ls fs b t ! i =
           (if vgt (vabs (detail px img fs ! i)) (Fin t) then boosted px img fs b ! i
            else large_smooth px img ls ! i)
       \<and> (\<forall>d. detail px img fs ! i = Fin d \<longrightarrow>
             result px img ls fs b t ! i =
               (if t < \<bar>d\<bar> then boosted px img fs b ! i else large_smooth px img ls ! i))"
proof (intro conjI allI impI)
  show "length (result px img ls fs b t) = length img"
    by (rule length_result)
  show "detail px img fs ! i = vsub (img ! i) (fine_smooth px img fs ! i)"
    using assms by (rule nth_detail)
  show "boosted px img fs b ! i =
      vadd (fine_smooth px img fs ! i) (vmul (detail px img fs ! i) (Fin b))"
    using assms by (rule nth_boosted)
  show sel: "result px img ls fs b t ! i =
      (if vgt (vabs (detail px img fs ! i)) (Fin t) then boosted px img fs b ! i
       else large_smooth px img ls ! i)"
    using assms by (rule nth_result)
  show "result px img ls fs b t ! i =
      (if t < \<bar>d\<bar> then boosted px img fs b ! i else large_smooth px img ls ! i)"
    if "detail px img fs ! i = Fin d" for d
    using sel that by (simp only: vgt_vabs_Fin)
qed

text \<open>
  On the concrete image, pixel 2 has detail \<open>3/5\<close> and takes the boosted sample; pixel 0 has
  detail \<open>0\<close> and takes the large-scale sample.
\<close>

theorem result_selection_rule_witness:
  "(2::nat) < length demo_image \<and> (0::nat) < length demo_image
   \<and> detail demo_filter demo_image 3 ! 2 = Fin (3 / 5)
   \<and> result demo_filter demo_image 15 3 (3 / 2) (1 / 50) ! 2 =
       boosted demo_filter demo_image 3 (3 / 2) ! 2
   \<and> boosted demo_filter demo_image 3 (3 / 2) ! 2 = Fin (6 / 5)
   \<and> detail demo_filter demo_image 3 ! 0 = Fin 0
   \<and> result demo_filter demo_image 15 3 (3 / 2) (1 / 50) ! 0 =
       large_smooth demo_filter demo_image 15 ! 0"
proof -
  have l2: "(2::nat) < length demo_image" and l0: "(0::nat) < length demo_image"
    by (simp_all add: demo_image_def)
  have d2: "detail demo_filter demo_image 3 ! 2 = Fin (3 / 5)"
    and d0: "detail demo_filter demo_image 3 ! 0 = Fin 0"
    and b2: "boosted demo_filter demo_image 3 (3 / 2) ! 2 = Fin (6 / 5)"
    by (simp_all add: demo_detail demo_boosted)
  from result_selection_rule [OF l2, of demo_filter 15 3 "3 / 2" "1 / 50"] d2
  have r2: "result demo_filter demo_image 15 3 (3 / 2) (1 / 50) ! 2 =
      boosted demo_filter demo_image 3 (3 / 2) ! 2"
    by (simp add: vgt_def)
  from result_selection_rule [OF l0, of demo_filter 15 3 "3 / 2" "1 / 50"] d0
  have r0: "result demo_filter demo_image 15 3 (3 / 2) (1 / 50) ! 0 =
      large_smooth demo_filter demo_image 15 ! 0"
    by (simp add: vgt_def)
  from l2 l0 d2 d0 b2 r2 r0 show ?thesis by simp
qed

text \<open>
  Claim C2 (one range step per run). The claim has a run without the two points fall back to
  global min/max normalization. \<^verbatim>\<open>zsmooth.py\<close> does normalize, and \<^verbatim>\<open>zsmooth_dynamic_range.py\<close>
  extends when both points are given (the two lemmas above). But in a run of
  \<^verbatim>\<open>zsmooth_dynamic_range.py\<close> without the two points, on an input that decodes,
  \<open>extend_dynamic_range\<close> is still called, \<^verbatim>\<open>float(None)\<close> raises \<^verbatim>\<open>TypeError\<close>, and the run ends
  with status 1 and no output file: neither range step is applied.
\<close>

theorem main_dr_absent_points_TypeError:
  assumes "black_point a = None" and "white_point a = None"
    and "read_image_dr c (input_file a) = Inr depth_map"
  shows "fst (main_dr c px a w) = Inl TypeError
       \<and> exit_status (fst (main_dr c px a w)) = 1
       \<and> files (snd (main_dr c px a w)) = files w"
  using assms
  by (simp add: main_dr_def Let_def run_dr_def process_depth_image_dr_absent exit_status_def
      files_print)

theorem main_dr_absent_points_TypeError_witness:
  "black_point (demo_args None None) = None \<and> white_point (demo_args None None) = None
   \<and> read_image_dr demo_codecs (input_file (demo_args None None)) =
        Inr \<lparr>shape = [1, 4], dtype = Float32, data = [Fin 0, Fin 0, Fin 1, Fin (1 / 5)]\<rparr>
   \<and> fst (main_dr demo_codecs demo_filter (demo_args None None) demo_world) = Inl TypeError
   \<and> exit_status (fst (main_dr demo_codecs demo_filter (demo_args None None) demo_world)) = 1
   \<and> files (snd (main_dr demo_codecs demo_filter (demo_args None None) demo_world)) = Map.empty"
proof -
  have 1: "black_point (demo_args None None) = None"
    and 2: "white_point (demo_args None None) = None"
    by (simp_all add: demo_args_def)
  have 3: "read_image_dr demo_codecs (input_file (demo_args None None)) =
        Inr \<lparr>shape = [1, 4], dtype = Float32, data = [Fin 0, Fin 0, Fin 1, Fin (1 / 5)]\<rparr>"
    by (simp add: demo_args_def demo_read_input)
  from main_dr_absent_points_TypeError [OF 1 2 3, of demo_filter demo_world] 1 2 3
  show ?thesis by (simp add: demo_world_def exit_status_def)
qed







text \<open>
  Claim C6 (decoding), as the code has it. In \<^verbatim>\<open>zsmooth_dynamic_range.py\<close>, a path ending in
  \<^verbatim>\<open>.exr\<close> (in any case) is read by \<open>read_exr\<close>, whose \<^verbatim>\<open>Y\<close> channel comes back as it is, a
  two-dimensional \<^verbatim>\<open>float32\<close> array. Any other path is decoded by OpenCV or, failing that, by
  PIL; when both fail the result is the \<^verbatim>\<open>ValueError\<close> that names the path. A decoded array
  of three dimensions is first converted with \<^verbatim>\<open>cvtColor(BGR2GRAY)\<close>; then \<^verbatim>\<open>uint8\<close> elements are
  divided by 255, \<^verbatim>\<open>uint16\<close> elements by 65535, and elements of any other type are kept, all as
  \<^verbatim>\<open>float32\<close>. In \<^verbatim>\<open>zsmooth.py\<close>, the array OpenCV decodes is converted to \<^verbatim>\<open>float32\<close> and not
  scaled, and the same \<^verbatim>\<open>ValueError\<close> is raised when OpenCV cannot read the file.
\<close>

theorem decode_contract:
  "read_image c file_path =
      (case cv2_imread c file_path IMREAD_ANYDEPTH of
         None \<Rightarrow> Inl (ValueError (''Could not read image: '' @ file_path))
       | Some raw \<Rightarrow> Inr (raw\<lparr>dtype := Float32\<rparr>))
   \<and> (endswith (lower file_path) ''.exr'' \<longrightarrow>
        read_image_dr c file_path = read_exr c file_path
        \<and> (\<forall>img. read_image_dr c file_path = Inr img \<longrightarrow>
              (\<exists>file. exr_InputFile c file_path = Inr file \<and> channel file ''Y'' = Inr (data img)
                 \<and> dtype img = Float32 \<and> length (shape img) = 2)))
   \<and> (\<not> endswith (lower file_path) ''.exr'' \<longrightarrow>
        (cv2_imread c file_path IMREAD_UNCHANGED = None \<and> pil_open c file_path = None \<longrightarrow>
           read_image_dr c file_path = Inl (ValueError (''Could not read image: '' @ file_path)))
        \<and> (\<forall>raw img.
              (cv2_imread c file_path IMREAD_UNCHANGED = Some raw
               \<or> cv2_imread c file_path IMREAD_UNCHANGED = None \<and> pil_open c file_path = Some raw)
              \<and> (if length (shape raw) = 3 then cv2_cvtColor_BGR2GRAY c raw else Inr raw) = Inr img
              \<longrightarrow> read_image_dr c file_path =
                    Inr \<lparr>shape = shape img, dtype = Float32,
                         data = (case dtype img of
                                   UInt8 \<Rightarrow> map (\<lambda>x. vdiv x (Fin 255)) (data img)
                                 | UInt16 \<Rightarrow> map (\<lambda>x. vdiv x (Fin 65535)) (data img)
                                 | _ \<Rightarrow> data img)\<rparr>))"
proof (intro conjI impI allI)
  show "read_image c file_path =
      (case cv2_imread c file_path IMREAD_ANYDEPTH of
         None \<Rightarrow> Inl (ValueError (''Could not read image: '' @ file_path))
       | Some raw \<Rightarrow> Inr (raw\<lparr>dtype := Float32\<rparr>))"
    by (simp add: read_image_def astype_float32_def split: option.split)
next
  assume "endswith (lower file_path) ''.exr''"
  then show eq: "read_image_dr c file_path = read_exr c file_path"
    by (simp add: read_image_dr_def)
  show "\<exists>file. exr_InputFile c file_path = Inr file \<and> channel file ''Y'' = Inr (data img)
                 \<and> dtype img = Float32 \<and> length (shape img) = 2"
    if "read_image_dr c file_path = Inr img" for img
    using that eq read_exr_as_is [of c file_path img] by simp
next
  assume ne: "\<not> endswith (lower file_path) ''.exr''"
  show "read_image_dr c file_path = Inl (ValueError (''Could not read image: '' @ file_path))"
    if "cv2_imread c file_path IMREAD_UNCHANGED = None \<and> pil_open c file_path = None"
    using that ne by (simp add: read_image_dr_def)
  show "read_image_dr c file_path =
                    Inr \<lparr>shape = shape img, dtype = Float32,
                         data = (case dtype img of
                                   UInt8 \<Rightarrow> map (\<lambda>x. vdiv x (Fin 255)) (data img)
                                 | UInt16 \<Rightarrow> map (\<lambda>x. vdiv x (Fin 65535)) (data img)
                                 | _ \<Rightarrow> data img)\<rparr>"
    if h: "(cv2_imread c file_path IMREAD_UNCHANGED = Some raw
               \<or> cv2_imread c file_path IMREAD_UNCHANGED = None \<and> pil_open c file_path = Some raw)
              \<and> (if length (shape raw) = 3 then cv2_cvtColor_BGR2GRAY c raw else Inr raw) = Inr img"
    for raw img
  proof -
    from h have dec: "(case cv2_imread c file_path IMREAD_UNCHANGED of
                 Some img \<Rightarrow> Inr img
               | None \<Rightarrow>
                   (case pil_open c file_path of
                      Some img \<Rightarrow> Inr img
                    | None \<Rightarrow> Inl (ValueError (''Could not read image: '' @ file_path)))) = Inr raw"
      by auto
    from h have gray: "(if length (shape raw) = 3 then cv2_cvtColor_BGR2GRAY c raw else Inr raw) = Inr img"
      by simp
    show ?thesis
      unfolding read_image_dr_def
      by (simp only: ne if_False dec gray sum.case)
        (cases img, cases "dtype img"; simp add: divide_by_def astype_float32_def)
  qed
qed

theorem decode_contract_witness:
  "\<not> endswith (lower ''input.png'') ''.exr'' \<and> \<not> endswith (lower ''deep.png'') ''.exr''
   \<and> \<not> endswith (lower ''nope.png'') ''.exr'' \<and> endswith (lower ''DEPTH.EXR'') ''.exr''
   \<and> read_image_dr demo_codecs ''input.png'' =
        Inr \<lparr>shape = [1, 4], dtype = Float32, data = [Fin 0, Fin 0, Fin 1, Fin (1 / 5)]\<rparr>
   \<and> read_image_dr demo_codecs ''deep.png'' =
        Inr \<lparr>shape = [1, 2], dtype = Float32, data = [Fin 0, Fin 1]\<rparr>
   \<and> read_image_dr demo_codecs ''nope.png'' = Inl (ValueError ''Could not read image: nope.png'')
   \<and> read_image_dr demo_codecs ''DEPTH.EXR'' = read_exr demo_codecs ''DEPTH.EXR''
   \<and> read_image demo_codecs ''nope.png'' = Inl (ValueError ''Could not read image: nope.png'')"
proof -
  have e1: "\<not> endswith (lower ''input.png'') ''.exr''"
    and e2: "\<not> endswith (lower ''deep.png'') ''.exr''"
    and e3: "\<not> endswith (lower ''nope.png'') ''.exr''"
    and e4: "endswith (lower ''DEPTH.EXR'') ''.exr''"
    by (simp_all add: endswith_def lower_def lower_char_def)
  let ?raw1 = "\<lparr>shape = [1, 4], dtype = UInt8, data = [Fin 0, Fin 0, Fin 255, Fin 51]\<rparr>"
  let ?raw2 = "\<lparr>shape = [1, 2], dtype = UInt16, data = [Fin 0, Fin 65535]\<rparr>"
  have r1: "cv2_imread demo_codecs ''input.png'' IMREAD_UNCHANGED = Some ?raw1"
    and r2: "cv2_imread demo_codecs ''deep.png'' IMREAD_UNCHANGED = Some ?raw2"
    and r3: "cv2_imread demo_codecs ''nope.png'' IMREAD_UNCHANGED = None
        \<and> pil_open demo_codecs ''nope.png'' = None"
    and r4: "cv2_imread demo_codecs ''nope.png'' IMREAD_ANYDEPTH = None"
    by (simp_all add: demo_codecs_def)
  have a: "read_image_dr demo_codecs ''input.png'' =
        Inr \<lparr>shape = [1, 4], dtype = Float32, data = [Fin 0, Fin 0, Fin 1, Fin (1 / 5)]\<rparr>"
    using decode_contract [of demo_codecs "''input.png''"] e1 r1 by simp
  have b: "read_image_dr demo_codecs ''deep.png'' =
        Inr \<lparr>shape = [1, 2], dtype = Float32, data = [Fin 0, Fin 1]\<rparr>"
    using decode_contract [of demo_codecs "''deep.png''"] e2 r2 by simp
  have c: "read_image_dr demo_codecs ''nope.png'' = Inl (ValueError ''Could not read image: nope.png'')"
    using decode_contract [of demo_codecs "''nope.png''"] e3 r3 by simp
  have d: "read_image_dr demo_codecs ''DEPTH.EXR'' = read_exr demo_codecs ''DEPTH.EXR''"
    using decode_contract [of demo_codecs "''DEPTH.EXR''"] e4 by simp
  have e: "read_image demo_codecs ''nope.png'' = Inl (ValueError ''Could not read image: nope.png'')"
    using decode_contract [of demo_codecs "''nope.png''"] r4 by simp
  from e1 e2 e3 e4 a b c d e show ?thesis by simp
qed

text \<open>
  The claim as the spec states it fails on \<^verbatim>\<open>zsmooth.py\<close>: an 8-bit source whose samples are
  0, 0, 255 and 51 is decoded to those numbers, not to them divided by 255.
\<close>

theorem read_image_unscaled_counterexample:
  "cv2_imread demo_codecs ''input.png'' IMREAD_ANYDEPTH =
      Some \<lparr>shape = [1, 4], dtype = UInt8, data = [Fin 0, Fin 0, Fin 255, Fin 51]\<rparr>
   \<and> read_image demo_codecs ''input.png'' =
      Inr \<lparr>shape = [1, 4], dtype = Float32, data = [Fin 0, Fin 0, Fin 255, Fin 51]\<rparr>
   \<and> read_image demo_codecs ''input.png'' \<noteq>
      Inr \<lparr>shape = [1, 4], dtype = Float32, data = [Fin 0, Fin 0, Fin 1, Fin (1 / 5)]\<rparr>"
  by (simp add: read_image_def demo_codecs_def astype_float32_def)





text \<open>
  Claim C9 (constant image). For every constant image of finite samples, the denominator
  \<open>max - min\<close> of the Normalizer is zero, and \<open>normalize_image\<close> raises nothing: it returns the
  image whose samples are all NaN. In \<^verbatim>\<open>zsmooth.py\<close>, whose input decodes to such an image, the
  run goes on with the NaN image: the BandingReducer returns an image, the FinalSmoother's
  output is written and \<open>process_depth_image\<close> returns normally. With a filter that answers
  NaN on a NaN image, the image written is all NaN. In both scripts, a BandingReducer whose
  blended result is such a constant image returns the all-NaN image.
\<close>

theorem constant_image_NaN_propagates:
  assumes "xs \<noteq> []" and "is_constant xs"
  shows "np_min (map Fin xs) = Inr (Fin (Min (set xs)))
       \<and> np_max (map Fin xs) = Inr (Fin (Max (set xs)))
       \<and> vsub (Fin (Max (set xs))) (Fin (Min (set xs))) = Fin 0
       \<and> normalize_image (map Fin xs) = Inr (replicate (length xs) NaN)
       \<and> (result px img ls fs b t = map Fin xs \<longrightarrow>
            reduce_banding px img ls fs b t = Inr (replicate (length xs) NaN))
       \<and> (\<forall>arr. cv2_imread c input_path IMREAD_ANYDEPTH = Some arr \<and> data arr = map Fin xs
               \<and> exr_writable c output_path \<longrightarrow>
            (\<exists>smoothed.
               reduce_banding px (replicate (length xs) NaN) ls fs b t = Inr smoothed
               \<and> length smoothed = length xs
               \<and> process_depth_image c px input_path output_path ls fs b t ss rs w =
                   (Inr (), w\<lparr>files := (files w)(output_path \<mapsto>
                                edge_preserving_smooth px smoothed ss rs)\<rparr>)
               \<and> ((\<forall>d sc sp. \<forall>i<length xs. px (replicate (length xs) NaN) d sc sp i = NaN) \<longrightarrow>
                     edge_preserving_smooth px smoothed ss rs = replicate (length xs) NaN)))"
proof (intro conjI allI impI)
  let ?n = "length xs"
  let ?nan = "replicate ?n NaN"
  have n: "0 < ?n" using assms(1) by simp
  have eq: "Min (set xs) = Max (set xs)" by (rule constant_Min_eq_Max [OF assms])
  show "np_min (map Fin xs) = Inr (Fin (Min (set xs)))" by (rule np_min_Fin [OF assms(1)])
  show "np_max (map Fin xs) = Inr (Fin (Max (set xs)))" by (rule np_max_Fin [OF assms(1)])
  show "vsub (Fin (Max (set xs))) (Fin (Min (set xs))) = Fin 0" by (simp add: vsub_Fin eq)
  show norm: "normalize_image (map Fin xs) = Inr ?nan"
    by (rule normalize_image_constant_NaN [OF assms])
  show "reduce_banding px img ls fs b t = Inr ?nan" if "result px img ls fs b t = map Fin xs"
    using that by (simp add: reduce_banding_def norm)
  fix arr
  assume h: "cv2_imread c input_path IMREAD_ANYDEPTH = Some arr \<and> data arr = map Fin xs
               \<and> exr_writable c output_path"
  have ne: "large_smooth px ?nan ls \<noteq> []"
    using n length_large_smooth [of px ?nan ls] by auto
  from normalize_image_general [OF ne] obtain smoothed
    where sm: "normalize_image (large_smooth px ?nan ls) = Inr smoothed"
      and len: "length smoothed = length (large_smooth px ?nan ls)"
    by blast
  have rb: "reduce_banding px ?nan ls fs b t = Inr smoothed"
    by (simp add: reduce_banding_def result_NaNs sm)
  have len': "length smoothed = ?n" using len by (simp add: length_large_smooth)
  have rd: "read_image c input_path = Inr (astype_float32 arr)"
    using h by (simp add: read_image_def)
  have run: "process_depth_image c px input_path output_path ls fs b t ss rs w =
      (Inr (), w\<lparr>files := (files w)(output_path \<mapsto> edge_preserving_smooth px smoothed ss rs)\<rparr>)"
    using h by (simp add: process_depth_image_def rd astype_float32_def norm rb save_exr_def)
  have keep: "edge_preserving_smooth px smoothed ss rs = ?nan"
    if k: "\<forall>d sc sp. \<forall>i<?n. px ?nan d sc sp i = NaN"
  proof -
    have "large_smooth px ?nan ls = ?nan"
      using k by (simp add: large_smooth_def bilateralFilter_NaNs)
    with sm have "smoothed = ?nan" by (simp add: normalize_image_NaNs [OF n])
    then show ?thesis
      using k by (simp add: edge_preserving_smooth_def bilateralFilter_NaNs)
  qed
  from rb len' run keep
  show "\<exists>smoothed.
               reduce_banding px (replicate (length xs) NaN) ls fs b t = Inr smoothed
               \<and> length smoothed = length xs
               \<and> process_depth_image c px input_path output_path ls fs b t ss rs w =
                   (Inr (), w\<lparr>files := (files w)(output_path \<mapsto>
                                edge_preserving_smooth px smoothed ss rs)\<rparr>)
               \<and> ((\<forall>d sc sp. \<forall>i<length xs. px (replicate (length xs) NaN) d sc sp i = NaN) \<longrightarrow>
                     edge_preserving_smooth px smoothed ss rs = replicate (length xs) NaN)"
    by blast
qed

theorem constant_image_NaN_propagates_witness:
  "[128, 128, 128 :: real] \<noteq> [] \<and> is_constant [128, 128, 128]
   \<and> normalize_image (map Fin [128, 128, 128]) = Inr [NaN, NaN, NaN]
   \<and> is_constant [1 / 2, 1 / 2, 1 / 2]
   \<and> reduce_banding demo_filter (map Fin [1 / 2, 1 / 2, 1 / 2]) 15 3 (3 / 2) (1 / 50) =
        Inr [NaN, NaN, NaN]
   \<and> cv2_imread demo_codecs ''flat.png'' IMREAD_ANYDEPTH =
        Some \<lparr>shape = [1, 3], dtype = UInt8, data = map Fin [128, 128, 128]\<rparr>
   \<and> exr_writable demo_codecs ''output.exr''
   \<and> process_depth_image demo_codecs demo_filter ''flat.png'' ''output.exr'' 15 3 (3 / 2) (1 / 50)
        50 (1 / 10) demo_world =
        (Inr (), \<lparr>files = [''output.exr'' \<mapsto> [NaN, NaN, NaN]], stdout = []\<rparr>)"
proof -
  let ?xs = "[128, 128, 128] :: real list"
  let ?arr = "\<lparr>shape = [1, 3], dtype = UInt8, data = map Fin ?xs\<rparr>"
  have ne: "?xs \<noteq> []" by simp
  have co: "is_constant ?xs" by (simp add: is_constant_def)
  have rd: "cv2_imread demo_codecs ''flat.png'' IMREAD_ANYDEPTH = Some ?arr"
    by (simp add: demo_codecs_def)
  have wr: "exr_writable demo_codecs ''output.exr''" by (simp add: demo_codecs_def)
  have k: "\<forall>d sc sp. \<forall>i<length ?xs. demo_filter (replicate (length ?xs) NaN) d sc sp i = NaN"
    by (intro allI impI) (rule demo_filter_NaNs)
  let ?hs = "[1 / 2, 1 / 2, 1 / 2] :: real list"
  have hne: "?hs \<noteq> []" by simp
  have hco: "is_constant ?hs" by (simp add: is_constant_def)
  have hres: "result demo_filter (map Fin ?hs) 15 3 (3 / 2) (1 / 50) = map Fin ?hs"
    by (simp add: demo_flat_result)
  from constant_image_NaN_propagates [OF hne hco, of demo_filter "map Fin ?hs" 15 3 "3 / 2" "1 / 50"] hres
  have flat: "reduce_banding demo_filter (map Fin ?hs) 15 3 (3 / 2) (1 / 50) =
      Inr (replicate (length ?hs) NaN)"
    by blast
  note inst = constant_image_NaN_propagates [OF ne co, of demo_filter _ 15 3 "3 / 2" "1 / 50"
      demo_codecs "''flat.png''" "''output.exr''" 50 "1 / 10" demo_world]
  from inst have nrm: "normalize_image (map Fin ?xs) = Inr (replicate (length ?xs) NaN)" by blast
  from inst rd wr obtain smoothed where
    run: "process_depth_image demo_codecs demo_filter ''flat.png'' ''output.exr'' 15 3 (3 / 2) (1 / 50)
        50 (1 / 10) demo_world =
        (Inr (), demo_world\<lparr>files := (files demo_world)(''output.exr'' \<mapsto>
                                edge_preserving_smooth demo_filter smoothed 50 (1 / 10))\<rparr>)"
    and keep: "(\<forall>d sc sp. \<forall>i<length ?xs. demo_filter (replicate (length ?xs) NaN) d sc sp i = NaN) \<longrightarrow>
                     edge_preserving_smooth demo_filter smoothed 50 (1 / 10) = replicate (length ?xs) NaN"
    by (metis ndarray.select_convs(3))
  from keep k have "edge_preserving_smooth demo_filter smoothed 50 (1 / 10) = replicate (length ?xs) NaN"
    by blast
  with run have "process_depth_image demo_codecs demo_filter ''flat.png'' ''output.exr'' 15 3 (3 / 2) (1 / 50)
        50 (1 / 10) demo_world =
        (Inr (), \<lparr>files = [''output.exr'' \<mapsto> [NaN, NaN, NaN]], stdout = []\<rparr>)"
    by (simp add: demo_world_def numeral_3_eq_3)
  with ne co nrm rd wr hco flat show ?thesis by (simp add: numeral_3_eq_3)
qed

text \<open>
  Claim C10 (idempotence). For every image of finite samples that is not constant, the
  Normalizer returns an image on which it is the identity: normalizing twice gives what
  normalizing once gives.
\<close>

theorem normalize_image_idempotent:
  assumes "\<not> is_constant xs"
  shows "\<exists>out. normalize_image (map Fin xs) = Inr out \<and> normalize_image out = Inr out"
proof -
  let ?f = "\<lambda>x. (x - Min (set xs)) / (Max (set xs) - Min (set xs))"
  let ?ys = "map ?f xs"
  have ne: "?ys \<noteq> []" using not_constant_nonempty [OF assms] by simp
  have 1: "normalize_image (map Fin xs) = Inr (map Fin ?ys)"
    by (rule normalize_image_nonconstant [OF assms])
  have mn: "Min (set ?ys) = 0" by (rule Min_normalized [OF assms])
  have mx: "Max (set ?ys) = 1" by (rule Max_normalized [OF assms])
  have "normalize_image (map Fin ?ys) =
      Inr (map (\<lambda>x. vdiv (Fin (x - Min (set ?ys))) (Fin (Max (set ?ys) - Min (set ?ys)))) ?ys)"
    by (rule normalize_image_Fin [OF ne])
  also have "\<dots> = Inr (map Fin ?ys)"
    by (simp only: mn mx) simp
  finally have 2: "normalize_image (map Fin ?ys) = Inr (map Fin ?ys)" .
  from 1 2 show ?thesis by blast
qed

theorem normalize_image_idempotent_witness:
  "\<not> is_constant [2, 4, 3]
   \<and> normalize_image (map Fin [2, 4, 3]) = Inr [Fin 0, Fin 1, Fin (1 / 2)]
   \<and> normalize_image [Fin 0, Fin 1, Fin (1 / 2)] = Inr [Fin 0, Fin 1, Fin (1 / 2)]"
proof -
  have nc: "\<not> is_constant [2, 4, 3]" by (simp add: is_constant_def)
  from normalize_image_idempotent [OF nc]
  obtain out where 1: "normalize_image (map Fin [2, 4, 3]) = Inr out"
    and 2: "normalize_image out = Inr out"
    by blast
  have "normalize_image (map Fin [2, 4, 3]) = Inr [Fin 0, Fin 1, Fin (1 / 2)]"
    by (simp add: normalize_image_def np_min_def np_max_def np_minimum_def np_maximum_def vsub_def)
  with 1 have "out = [Fin 0, Fin 1, Fin (1 / 2)]" by simp
  with nc 1 2 show ?thesis by simp
qed

end
